theory Spec2Isabelle
  imports Main "HOL-Library.AList" "HOL-Library.Monad_Syntax"
begin

section \<open>Values, dictionaries and errors\<close>

text \<open>
  The script \<^verbatim>\<open>make-gallery-pages.py\<close> works on the values that \<^verbatim>\<open>yaml.load\<close> returns and on
  dictionaries built from them. A Python \<^verbatim>\<open>str\<close> is represented by its UTF-8 encoding, a list of
  bytes (\<^typ>\<open>string\<close>): in UTF-8 every byte of a non-ASCII character is at least \<open>0x80\<close> and
  every byte below \<open>0x80\<close> is an ASCII character of its own, so the operations of the script on
  characters (\<^verbatim>\<open>replace\<close> of one ASCII character, \<^verbatim>\<open>encode("ascii", "ignore")\<close>, \<^verbatim>\<open>encode()\<close>) are
  operations on these bytes. A \<^verbatim>\<open>str\<close> holding a lone surrogate has no UTF-8 encoding and is
  outside the model. A \<^verbatim>\<open>dict\<close> is an association list in insertion order, read with
  \<^const>\<open>map_of\<close> and written with \<^const>\<open>AList.update\<close> (which replaces the value of a key in
  place and appends a new key at the end, as a Python dictionary does).
\<close>

datatype pyval =
    PNone
  | PBool bool
  | PInt int
  | PStr string
  | PList "pyval list"
  | PDict "(string \<times> pyval) list"

type_synonym dict = "(string \<times> pyval) list"

datatype error =
    KeyError string
  | AttributeError
  | TypeError
  | LoadError
  | OSError

text \<open>\<^verbatim>\<open>v.get(k, default)\<close>: only a dictionary has the method.\<close>

definition py_get :: "pyval \<Rightarrow> string \<Rightarrow> pyval \<Rightarrow> error + pyval" where
  "py_get v k dflt =
     (case v of
        PDict d \<Rightarrow> Inr (case map_of d k of None \<Rightarrow> dflt | Some x \<Rightarrow> x)
      | _ \<Rightarrow> Inl AttributeError)"

text \<open>\<^verbatim>\<open>v[k]\<close> with a string key \<open>k\<close>: a missing key of a dictionary raises KeyError, every
  other value raises TypeError (no subscript, or indices that must be integers).\<close>

definition py_getitem :: "pyval \<Rightarrow> string \<Rightarrow> error + pyval" where
  "py_getitem v k =
     (case v of
        PDict d \<Rightarrow> (case map_of d k of None \<Rightarrow> Inl (KeyError k) | Some x \<Rightarrow> Inr x)
      | _ \<Rightarrow> Inl TypeError)"

text \<open>\<^verbatim>\<open>d.update(other)\<close>: every item of \<open>other\<close>, in its order, is stored in \<open>d\<close>.\<close>

definition dict_update :: "dict \<Rightarrow> dict \<Rightarrow> dict" where
  "dict_update d other = fold (\<lambda>(k, v) acc. AList.update k v acc) other d"

section \<open>Strings\<close>

text \<open>\<^verbatim>\<open>s.replace(old, new)\<close> where \<open>old\<close> is one ASCII character.\<close>

definition replace_char :: "char \<Rightarrow> string \<Rightarrow> string \<Rightarrow> string" where
  "replace_char old new s = concat (map (\<lambda>c. if c = old then new else [c]) s)"

definition LF :: char where "LF = CHR 0x0A"
definition CR :: char where "CR = CHR 0x0D"

text \<open>Lines 160--162 of the script: the two \<^verbatim>\<open>replace\<close> calls on the description.\<close>

definition clean_description :: "string \<Rightarrow> string" where
  "clean_description s = replace_char CR ''<br>'' (replace_char LF [] s)"

text \<open>\<^verbatim>\<open>s.encode("ascii", "ignore").decode()\<close>: every character that is not ASCII is dropped.
  On the UTF-8 bytes of \<open>s\<close> these are the bytes from \<open>0x80\<close> on.\<close>

definition encode_ascii_ignore :: "string \<Rightarrow> string" where
  "encode_ascii_ignore s = filter (\<lambda>c. (of_char c :: nat) < 128) s"

text \<open>\<^verbatim>\<open>s.encode()\<close>: the UTF-8 bytes of \<open>s\<close>, which represent \<open>s\<close> here.\<close>

definition encode_utf8 :: "string \<Rightarrow> char list" where
  "encode_utf8 s = s"

subsection \<open>Base64 (RFC 4648): \<^verbatim>\<open>base64.b64encode\<close> and a strict decoder\<close>

definition b64_alphabet :: string where
  "b64_alphabet = ''ABCDEFGHIJKLMNOPQRSTUVWXYZabcdefghijklmnopqrstuvwxyz0123456789+/''"

definition b64_char :: "nat \<Rightarrow> char" where
  "b64_char n = b64_alphabet ! (n mod 64)"

fun index_of :: "'a \<Rightarrow> 'a list \<Rightarrow> nat option" where
  "index_of x [] = None"
| "index_of x (y # ys) = (if x = y then Some 0 else map_option Suc (index_of x ys))"

definition b64_value :: "char \<Rightarrow> nat option" where
  "b64_value c = index_of c b64_alphabet"

fun b64encode :: "char list \<Rightarrow> string" where
  "b64encode [] = []"
| "b64encode [a] =
     (let x = of_char a in
      [b64_char (x div 4), b64_char ((x mod 4) * 16), CHR ''='', CHR ''=''])"
| "b64encode [a, b] =
     (let x = of_char a; y = of_char b in
      [b64_char (x div 4), b64_char ((x mod 4) * 16 + y div 16),
       b64_char ((y mod 16) * 4), CHR ''=''])"
| "b64encode (a # b # c # rest) =
     (let x = of_char a; y = of_char b; z = of_char c in
      [b64_char (x div 4), b64_char ((x mod 4) * 16 + y div 16),
       b64_char ((y mod 16) * 4 + z div 64), b64_char (z mod 64)] @ b64encode rest)"

text \<open>The script only encodes. The decoder is the strict one of RFC 4648: it reads groups of
  four characters and accepts padding in the last group only; a character outside the
  alphabet or a length that is no multiple of four is an error, \<^const>\<open>None\<close>. Python's
  \<^verbatim>\<open>base64.b64decode\<close> is more lenient by default (it discards the characters outside the
  alphabet before it decodes); the encoder produces no such character.\<close>

fun b64decode :: "string \<Rightarrow> char list option" where
  "b64decode [] = Some []"
| "b64decode (c1 # c2 # c3 # c4 # rest) =
     (if rest = [] \<and> c3 = CHR ''='' \<and> c4 = CHR ''='' then
        (case (b64_value c1, b64_value c2) of
           (Some p, Some q) \<Rightarrow> Some [char_of (p * 4 + q div 16)]
         | _ \<Rightarrow> None)
      else if rest = [] \<and> c4 = CHR ''='' then
        (case (b64_value c1, b64_value c2, b64_value c3) of
           (Some p, Some q, Some r) \<Rightarrow>
             Some [char_of (p * 4 + q div 16), char_of ((q mod 16) * 16 + r div 4)]
         | _ \<Rightarrow> None)
      else
        (case (b64_value c1, b64_value c2, b64_value c3, b64_value c4) of
           (Some p, Some q, Some r, Some s) \<Rightarrow>
             map_option
               (\<lambda>bs. [char_of (p * 4 + q div 16), char_of ((q mod 16) * 16 + r div 4),
                      char_of ((r mod 4) * 64 + s)] @ bs)
               (b64decode rest)
         | _ \<Rightarrow> None))"
| "b64decode _ = None"

section \<open>Paths (\<^verbatim>\<open>posixpath\<close>)\<close>

definition sep :: char where "sep = CHR ''/''"

text \<open>\<^verbatim>\<open>os.path.join(a, b)\<close> with two arguments.\<close>

definition path_join :: "string \<Rightarrow> string \<Rightarrow> string" where
  "path_join a b =
     (if b \<noteq> [] \<and> hd b = sep then b
      else if a = [] \<or> last a = sep then a @ b
      else a @ [sep] @ b)"

text \<open>\<^verbatim>\<open>os.path.basename(p)\<close>: what follows the last slash.\<close>

definition basename :: "string \<Rightarrow> string" where
  "basename p = rev (takeWhile (\<lambda>c. c \<noteq> sep) (rev p))"

text \<open>\<^verbatim>\<open>os.path.dirname(p)\<close>: what precedes the last slash, that slash included; trailing
  slashes are then stripped unless the head consists of slashes only.\<close>

definition dirname :: "string \<Rightarrow> string" where
  "dirname p =
     (let head = rev (dropWhile (\<lambda>c. c \<noteq> sep) (rev p)) in
      if head \<noteq> [] \<and> head \<noteq> replicate (length head) sep
      then rev (dropWhile (\<lambda>c. c = sep) (rev head))
      else head)"

definition static_dir :: string where "static_dir = ''./source/_static''"
definition template_dir :: string where "template_dir = ''./source/_templates''"

section \<open>The world outside the script\<close>

text \<open>
  An element of the tree that \<^verbatim>\<open>lxml.etree.fromstring\<close> returns: its tag as a qualified
  name (namespace URI and local name), its \<^verbatim>\<open>.text\<close> (which may be \<^verbatim>\<open>None\<close>) and its child
  elements in document order.
\<close>

datatype xml = Element (tag: "string \<times> string") (elem_text: "string option") (children: "xml list")

type_synonym nsmap = "(string \<times> string) list"

datatype http_result =
    RequestFailed
  | Response int string

datatype event =
    Print string
  | WriteYaml string dict
  | RenderPage string dict string
  | CopyFile string string

text \<open>
  What the script reads from its environment, each field one library call:
  \<^item> \<open>load_conf path\<close>: \<^verbatim>\<open>open(path)\<close> followed by \<^verbatim>\<open>yaml.load\<close>, which may raise;
  \<^item> \<open>http_get hsguid\<close>: \<^verbatim>\<open>requests.get\<close> on the \<^verbatim>\<open>scimeta\<close> URL of the resource, which
    raises or returns a status code and a body;
  \<^item> \<open>fromstring body\<close>: \<^verbatim>\<open>etree.fromstring\<close>, \<^const>\<open>None\<close> when the body does not parse,
    else the root element and its \<^verbatim>\<open>nsmap\<close> (prefix to namespace URI);
  \<^item> \<open>py_str v\<close>: the built-in \<^verbatim>\<open>str(v)\<close> that an f-string applies to a value that is
    not a string;
  \<^item> \<open>abspath\<close> and \<open>path_exists\<close>: \<^verbatim>\<open>os.path.abspath\<close> (it depends on the working
    directory) and \<^verbatim>\<open>os.path.exists\<close>;
  \<^item> \<open>copyfile src dst\<close>: whether \<^verbatim>\<open>shutil.copyfile\<close> raises (the source is a directory,
    the destination lies in a directory that does not exist, both are the same file), and
    what.

  What the script does to its environment is the list of \<^typ>\<open>event\<close>s it emits: a line
  printed, \<^verbatim>\<open>yaml.dump\<close> of a record to a path, a template rendered with a record to a path,
  a file copied. Writing and rendering are taken to succeed, and what the script
  writes is taken not to change what it reads later in the same run.
\<close>

record world =
  load_conf :: "string \<Rightarrow> error + pyval"
  http_get :: "pyval \<Rightarrow> http_result"
  fromstring :: "string \<Rightarrow> (xml \<times> nsmap) option"
  py_str :: "pyval \<Rightarrow> string"
  abspath :: "string \<Rightarrow> string"
  path_exists :: "string \<Rightarrow> bool"
  copyfile :: "string \<Rightarrow> string \<Rightarrow> error option"

text \<open>\<^verbatim>\<open>f"{v}"\<close>\<close>

definition format_value :: "world \<Rightarrow> pyval \<Rightarrow> string" where
  "format_value w v = (case v of PStr s \<Rightarrow> s | _ \<Rightarrow> py_str w v)"

section \<open>Metadata Fetcher: \<^verbatim>\<open>get_metadata_from_hs\<close>\<close>

text \<open>
  A path step \<^verbatim>\<open>prefix:local\<close> is resolved through the root's \<^verbatim>\<open>nsmap\<close>; a prefix the map
  does not bind makes lxml raise, which is \<^const>\<open>None\<close> here, as is every other exception
  inside the \<^verbatim>\<open>try\<close> block of the fetcher. The map holds named prefixes only; an entry
  for the default namespace plays no part in the paths of the script.
\<close>

definition qname :: "nsmap \<Rightarrow> string \<Rightarrow> string \<Rightarrow> (string \<times> string) option" where
  "qname ns prefix local = map_option (\<lambda>uri. (uri, local)) (map_of ns prefix)"

text \<open>The proper descendants of an element, in document order.\<close>

fun descendants :: "xml \<Rightarrow> xml list" where
  "descendants (Element t x cs) = concat (map (\<lambda>c. c # descendants c) cs)"

text \<open>\<^verbatim>\<open>e.findall(".//prefix:local", nsmap)\<close> and \<^verbatim>\<open>e.find(".//prefix:local", nsmap)\<close>\<close>

definition findall_desc :: "nsmap \<Rightarrow> xml \<Rightarrow> string \<Rightarrow> string \<Rightarrow> xml list option" where
  "findall_desc ns e prefix local =
     map_option (\<lambda>q. filter (\<lambda>d. tag d = q) (descendants e)) (qname ns prefix local)"

definition find_desc :: "nsmap \<Rightarrow> xml \<Rightarrow> string \<Rightarrow> string \<Rightarrow> xml option option" where
  "find_desc ns e prefix local =
     map_option (\<lambda>q. List.find (\<lambda>d. tag d = q) (descendants e)) (qname ns prefix local)"

text \<open>\<^verbatim>\<open>e.find("prefix:local", nsmap)\<close>: the first child with that tag.\<close>

definition find_child :: "nsmap \<Rightarrow> xml \<Rightarrow> string \<Rightarrow> string \<Rightarrow> xml option option" where
  "find_child ns e prefix local =
     map_option (\<lambda>q. List.find (\<lambda>d. tag d = q) (children e)) (qname ns prefix local)"

text \<open>\<^verbatim>\<open>e.findall("p1:l1/p2:l2", nsmap)\<close>: the \<open>l2\<close> children of the \<open>l1\<close> children.\<close>

definition findall_path2 ::
  "nsmap \<Rightarrow> xml \<Rightarrow> string \<Rightarrow> string \<Rightarrow> string \<Rightarrow> string \<Rightarrow> xml list option" where
  "findall_path2 ns e p1 l1 p2 l2 =
     (case (qname ns p1 l1, qname ns p2 l2) of
        (Some q1, Some q2) \<Rightarrow>
          Some (concat (map (\<lambda>d. filter (\<lambda>c. tag c = q2) (children d))
                            (filter (\<lambda>d. tag d = q1) (children e))))
      | _ \<Rightarrow> None)"

definition text_value :: "xml \<Rightarrow> pyval" where
  "text_value e = (case elem_text e of None \<Rightarrow> PNone | Some s \<Rightarrow> PStr s)"

text \<open>Lines 53--56: the loop over \<^verbatim>\<open>["name", "organization", "email"]\<close>.\<close>

fun creator_terms :: "nsmap \<Rightarrow> xml \<Rightarrow> string list \<Rightarrow> dict \<Rightarrow> dict option" where
  "creator_terms ns terms [] d = Some d"
| "creator_terms ns terms (att # atts) d =
     (case find_child ns terms ''hsterms'' att of
        None \<Rightarrow> None
      | Some None \<Rightarrow> creator_terms ns terms atts d
      | Some (Some val) \<Rightarrow> creator_terms ns terms atts (AList.update att (text_value val) d))"

text \<open>Lines 51--63: one creator. \<^verbatim>\<open>creator.find\<close> may return \<^verbatim>\<open>None\<close>, on which
  \<^verbatim>\<open>terms.find\<close> raises.\<close>

definition creator_record :: "nsmap \<Rightarrow> xml \<Rightarrow> dict option" where
  "creator_record ns creator =
     (case find_child ns creator ''rdf'' ''Description'' of
        Some (Some terms) \<Rightarrow>
          (case creator_terms ns terms [''name'', ''organization'', ''email''] [] of
             None \<Rightarrow> None
           | Some d \<Rightarrow>
               (case find_child ns terms ''hsterms'' ''description'' of
                  None \<Rightarrow> None
                | Some None \<Rightarrow> Some d
                | Some (Some user_url) \<Rightarrow>
                    Some (AList.update ''url''
                            (PStr (''https://hydroshare.org'' @
                                   (case elem_text user_url of None \<Rightarrow> ''None'' | Some s \<Rightarrow> s))) d)))
      | _ \<Rightarrow> None)"

text \<open>Lines 50--63: the loop over the creators; it stops at the first exception.\<close>

fun creator_records :: "nsmap \<Rightarrow> xml list \<Rightarrow> pyval list option" where
  "creator_records ns [] = Some []"
| "creator_records ns (c # cs) =
     (case creator_record ns c of
        None \<Rightarrow> None
      | Some d \<Rightarrow> map_option (\<lambda>ds. PDict d # ds) (creator_records ns cs))"

text \<open>Lines 47--79: the record built from a parsed document.\<close>

definition scimeta_record :: "nsmap \<Rightarrow> xml \<Rightarrow> dict option" where
  "scimeta_record ns root =
     do {
       creators \<leftarrow> findall_desc ns root ''dc'' ''creator'';
       authors \<leftarrow> creator_records ns creators;
       title_opt \<leftarrow> find_desc ns root ''dc'' ''title'';
       title \<leftarrow> title_opt;
       abstract_opt \<leftarrow> find_desc ns root ''dcterms'' ''abstract'';
       abstract \<leftarrow> abstract_opt;
       abstract_text \<leftarrow> elem_text abstract;
       subject_kw \<leftarrow> findall_path2 ns root ''rdf'' ''Description'' ''dc'' ''subject'';
       Some ([(''authors'', PList authors),
              (''title'', text_value title),
              (''description'', PStr (encode_ascii_ignore abstract_text))]
             @ (if length subject_kw > 0
                then [(''keywords'', PList (map text_value subject_kw))] else []))
     }"

text \<open>The try block of lines 36--79 without its \<^verbatim>\<open>except\<close> clause.\<close>

definition fetch_scimeta :: "world \<Rightarrow> pyval \<Rightarrow> dict option" where
  "fetch_scimeta w hsguid =
     (case http_get w hsguid of
        RequestFailed \<Rightarrow> None
      | Response status_code body \<Rightarrow>
          if status_code \<noteq> 200 then None
          else (case fromstring w (encode_utf8 body) of
                  None \<Rightarrow> None
                | Some (root, ns) \<Rightarrow> scimeta_record ns root))"

text \<open>The function returns what it printed and its result; \<^const>\<open>None\<close> is Python's
  \<^verbatim>\<open>None\<close>.\<close>

definition get_metadata_from_hs :: "world \<Rightarrow> pyval \<Rightarrow> event list \<times> dict option" where
  "get_metadata_from_hs w hsguid =
     (case fetch_scimeta w hsguid of
        None \<Rightarrow>
          ([Print (''Failed to get hydroshare data for resource id: '' @ format_value w hsguid)],
           None)
      | Some data \<Rightarrow> ([], Some data))"

section \<open>Static Asset Relocator: \<^verbatim>\<open>copy_static\<close>\<close>

text \<open>\<^verbatim>\<open>os.path.join(subdir, v)\<close> where \<open>v\<close> comes from the record: only a string is a path.\<close>

definition join_value :: "string \<Rightarrow> pyval \<Rightarrow> error + string" where
  "join_value a v = (case v of PStr b \<Rightarrow> Inr (path_join a b) | _ \<Rightarrow> Inl TypeError)"

definition default_thumbnail :: "dict \<Rightarrow> event list \<times> dict" where
  "default_thumbnail data =
     ([Print ''WARNING: Missing thumbnail, setting to default image''],
      AList.update ''thumbnail'' (PStr ''missing-thumbnail.png'') data)"

text \<open>The global \<^verbatim>\<open>subdir\<close> that the function reads is the loop variable of the traversal;
  it is a parameter here.\<close>

definition copy_static :: "world \<Rightarrow> string \<Rightarrow> dict \<Rightarrow> error + (event list \<times> dict)" where
  "copy_static w subdir data =
     (case map_of data ''thumbnail'' of
        None \<Rightarrow> Inr (default_thumbnail data)
      | Some thumbnail \<Rightarrow>
          (case join_value subdir thumbnail of
             Inl e \<Rightarrow> Inl e
           | Inr joined \<Rightarrow>
               let thumbnail_path = abspath w joined in
               if path_exists w thumbnail_path then
                 (case map_of data ''label'' of
                    None \<Rightarrow> Inl (KeyError ''label'')
                  | Some label \<Rightarrow>
                      let thumbnail_new_name = ''thumbnail-'' @ format_value w label;
                          destination = static_dir @ ''/'' @ thumbnail_new_name
                      in
                      (case copyfile w thumbnail_path destination of
                         Some e \<Rightarrow> Inl e
                       | None \<Rightarrow>
                           Inr ([CopyFile thumbnail_path destination],
                                AList.update ''thumbnail'' (PStr thumbnail_new_name) data)))
               else Inr (default_thumbnail data)))"

section \<open>Example Builder: \<^verbatim>\<open>build_example_page\<close>\<close>

text \<open>Lines 148--149: \<^verbatim>\<open>data = hsdata or {}\<close>, then \<^verbatim>\<open>data.update(yaml_data)\<close>. An absent
  \<open>hsdata\<close> and an empty one both give the empty dictionary.\<close>

definition merge_data :: "dict option \<Rightarrow> dict \<Rightarrow> dict" where
  "merge_data hsdata yaml_data =
     dict_update (case hsdata of None \<Rightarrow> [] | Some h \<Rightarrow> h) yaml_data"

text \<open>\<^verbatim>\<open>data['hydroshare']['id']\<close>\<close>

definition hydroshare_id :: "dict \<Rightarrow> error + pyval" where
  "hydroshare_id data =
     (case py_getitem (PDict data) ''hydroshare'' of
        Inl e \<Rightarrow> Inl e
      | Inr h \<Rightarrow> py_getitem h ''id'')"

text \<open>\<^verbatim>\<open>base64.b64encode(v.encode()).decode()\<close>: only a string has \<^verbatim>\<open>encode\<close>.\<close>

definition b64_label :: "pyval \<Rightarrow> error + pyval" where
  "b64_label v =
     (case v of
        PStr title \<Rightarrow> Inr (PStr (b64encode (encode_utf8 title)))
      | _ \<Rightarrow> Inl AttributeError)"

text \<open>Lines 151--158: the label. Whatever the first assignment raises is caught; what the
  second raises is not.\<close>

definition derive_label :: "dict \<Rightarrow> error + dict" where
  "derive_label data =
     (case map_of data ''label'' of
        Some l \<Rightarrow> Inr data
      | None \<Rightarrow>
          (case hydroshare_id data of
             Inr hsid \<Rightarrow> Inr (AList.update ''label'' hsid data)
           | Inl e \<Rightarrow>
               (case py_getitem (PDict data) ''title'' of
                  Inl e' \<Rightarrow> Inl e'
                | Inr title \<Rightarrow>
                    (case b64_label title of
                       Inl e' \<Rightarrow> Inl e'
                     | Inr l \<Rightarrow> Inr (AList.update ''label'' l data)))))"

text \<open>Lines 160--162: the description is read, cleaned and stored back.\<close>

definition normalize_description :: "dict \<Rightarrow> error + dict" where
  "normalize_description data =
     (case py_getitem (PDict data) ''description'' of
        Inl e \<Rightarrow> Inl e
      | Inr (PStr s) \<Rightarrow> Inr (AList.update ''description'' (PStr (clean_description s)) data)
      | Inr _ \<Rightarrow> Inl AttributeError)"

text \<open>The function returns what it emitted and its result (\<^const>\<open>None\<close> is Python's
  \<^verbatim>\<open>None\<close>), or the exception that leaves it.\<close>

definition build_example_page ::
  "world \<Rightarrow> string \<Rightarrow> string \<Rightarrow> error + (event list \<times> dict option)" where
  "build_example_page w subdir conf =
     (case load_conf w conf of
        Inl e \<Rightarrow> Inl e
      | Inr yaml_data \<Rightarrow>
          (case py_get yaml_data ''hydroshare'' (PDict []) of
             Inl e \<Rightarrow> Inl e
           | Inr hs \<Rightarrow>
               (case py_get hs ''id'' PNone of
                  Inl e \<Rightarrow> Inl e
                | Inr hsid \<Rightarrow>
                    let (out, hsdata) =
                          (if hsid \<noteq> PNone then get_metadata_from_hs w hsid else ([], None))
                    in
                    if hsid \<noteq> PNone \<and> hsdata = None then
                      Inr (out @ [Print ''something happened when collecting hs metadata''], None)
                    else
                      (case yaml_data of
                         PDict yd \<Rightarrow>
                           (case derive_label (merge_data hsdata yd) of
                              Inl e \<Rightarrow> Inl e
                            | Inr labelled \<Rightarrow>
                                (case normalize_description labelled of
                                   Inl e \<Rightarrow> Inl e
                                 | Inr data \<Rightarrow>
                                     Inr (out @
                                          [WriteYaml (path_join subdir ''.cache.yaml'') data,
                                           RenderPage (path_join template_dir ''landingpage.rst'')
                                             data (path_join subdir ''index.rst'')],
                                          Some data)))
                       | _ \<Rightarrow> Inl AttributeError))))"

section \<open>Aggregator and traversal loop\<close>

type_synonym subgallery_index = "(string \<times> (string \<times> dict list) list) list"

text \<open>Lines 210--221: the record is appended under its sub-gallery and category; both
  groupings are created empty when they are met for the first time.\<close>

definition aggregate :: "subgallery_index \<Rightarrow> string \<Rightarrow> dict \<Rightarrow> subgallery_index" where
  "aggregate subgalleries subdir data =
     (let subgallery_path = dirname (dirname subdir);
          category = basename (dirname subdir);
          subgalleries1 =
            (if map_of subgalleries subgallery_path = None
             then AList.update subgallery_path [] subgalleries else subgalleries);
          categories = (case map_of subgalleries1 subgallery_path of None \<Rightarrow> [] | Some cs \<Rightarrow> cs);
          categories1 =
            (if map_of categories category = None
             then AList.update category [] categories else categories);
          examples = (case map_of categories1 category of None \<Rightarrow> [] | Some xs \<Rightarrow> xs)
      in AList.update subgallery_path
           (AList.update category (examples @ [data]) categories1) subgalleries1)"

record gallery_state =
  subgalleries :: subgallery_index
  events :: "event list"

text \<open>Lines 195--221: the body of the loop for one triple of \<^verbatim>\<open>os.walk\<close>. An exception of
  the builder or of the asset relocator leaves the loop: there is no handler around them.\<close>

definition process_dir ::
  "world \<Rightarrow> gallery_state \<Rightarrow> string \<times> string list \<Rightarrow> error + gallery_state" where
  "process_dir w s entry =
     (case entry of (subdir, files) \<Rightarrow>
        if ''conf.yaml'' \<in> set files then
          (let started = events s @ [Print (''processing: '' @ subdir)];
               conf = path_join subdir ''conf.yaml''
           in case build_example_page w subdir conf of
                Inl e \<Rightarrow> Inl e
              | Inr (out, None) \<Rightarrow> Inr (s\<lparr>events := started @ out\<rparr>)
              | Inr (out, Some data) \<Rightarrow>
                  (case copy_static w subdir data of
                     Inl e \<Rightarrow> Inl e
                   | Inr (out', data') \<Rightarrow>
                       Inr \<lparr>subgalleries = aggregate (subgalleries s) subdir data',
                            events = started @ out @ out'\<rparr>))
        else Inr s)"

text \<open>Line 194: the loop over what \<^verbatim>\<open>os.walk\<close> yields, here the list of its
  (directory, file names) pairs in traversal order.\<close>

fun traverse ::
  "world \<Rightarrow> gallery_state \<Rightarrow> (string \<times> string list) list \<Rightarrow> error + gallery_state" where
  "traverse w s [] = Inr s"
| "traverse w s (entry # rest) =
     (case process_dir w s entry of
        Inl e \<Rightarrow> Inl e
      | Inr s' \<Rightarrow> traverse w s' rest)"

definition initial_state :: gallery_state where
  "initial_state = \<lparr>subgalleries = [], events = []\<rparr>"

section \<open>Observations used to state the properties\<close>

text \<open>\<^verbatim>\<open>subgalleries[subgallery_path][category]\<close>, empty where a grouping does not exist.\<close>

definition entries :: "subgallery_index \<Rightarrow> string \<Rightarrow> string \<Rightarrow> dict list" where
  "entries idx subgallery_path category =
     (case map_of idx subgallery_path of
        None \<Rightarrow> []
      | Some categories \<Rightarrow> (case map_of categories category of None \<Rightarrow> [] | Some xs \<Rightarrow> xs))"

text \<open>The record that the loop body files for one directory of the walk, if it files one:
  what \<^const>\<open>copy_static\<close> returns for what \<^const>\<open>build_example_page\<close> returns.\<close>

definition filed :: "world \<Rightarrow> string \<times> string list \<Rightarrow> dict list" where
  "filed w entry =
     (case entry of (subdir, files) \<Rightarrow>
        if ''conf.yaml'' \<in> set files then
          (case build_example_page w subdir (path_join subdir ''conf.yaml'') of
             Inr (out, Some data) \<Rightarrow>
               (case copy_static w subdir data of Inr (out', data') \<Rightarrow> [data'] | Inl e \<Rightarrow> [])
           | _ \<Rightarrow> [])
        else [])"

text \<open>The description of the record that the fetcher returns.\<close>

definition fetched_description :: "world \<Rightarrow> pyval \<Rightarrow> pyval option" where
  "fetched_description w hsguid =
     (case snd (get_metadata_from_hs w hsguid) of
        None \<Rightarrow> None
      | Some data \<Rightarrow> map_of data ''description'')"

text \<open>The specification's wording for the fetched description, ``control characters
  stripped'': the ASCII control characters are U+0000 to U+001F and U+007F. This is the
  text of the specification, not of the script, which \<^const>\<open>encode_ascii_ignore\<close> embeds.\<close>

definition is_control_char :: "char \<Rightarrow> bool" where
  "is_control_char c = ((of_char c :: nat) < 32 \<or> (of_char c :: nat) = 127)"

definition spec_strip_control_chars :: "string \<Rightarrow> string" where
  "spec_strip_control_chars s = filter (\<lambda>c. \<not> is_control_char c) s"

section \<open>A concrete gallery\<close>

text \<open>
  Five examples under \<^verbatim>\<open>./source/gallery/hydro/models\<close>: one without a description, the
  scenario of the specification (\<^verbatim>\<open>Demo\<close> with a carriage return and a line feed in its
  description), one whose \<^verbatim>\<open>hydroshare.id\<close> is left empty (YAML \<^verbatim>\<open>null\<close>), one whose resource
  is gone (HTTP 404) and one whose resource is served. The abstract of the served resource
  holds a line feed, a tabulator and the two UTF-8 bytes of U+00E9.
\<close>

definition demo_ns :: nsmap where
  "demo_ns =
     [(''rdf'', ''http://www.w3.org/1999/02/22-rdf-syntax-ns#''),
      (''dc'', ''http://purl.org/dc/elements/1.1/''),
      (''dcterms'', ''http://purl.org/dc/terms/''),
      (''hsterms'', ''https://www.hydroshare.org/terms/'')]"

definition demo_abstract :: string where
  "demo_abstract = ''Flow'' @ [LF] @ ''data'' @ [CHR 0x09, CHR 0xC3, CHR 0xA9]"

definition demo_root :: xml where
  "demo_root =
     Element (''http://www.w3.org/1999/02/22-rdf-syntax-ns#'', ''RDF'') None
       [Element (''http://www.w3.org/1999/02/22-rdf-syntax-ns#'', ''Description'') None
          [Element (''http://purl.org/dc/elements/1.1/'', ''title'') (Some ''Stream gauges'') [],
           Element (''http://purl.org/dc/elements/1.1/'', ''creator'') None
             [Element (''http://www.w3.org/1999/02/22-rdf-syntax-ns#'', ''Description'') None
                [Element (''https://www.hydroshare.org/terms/'', ''name'') (Some ''Ada'') [],
                 Element (''https://www.hydroshare.org/terms/'', ''description'')
                   (Some ''/user/7/'') []]],
           Element (''http://purl.org/dc/elements/1.1/'', ''description'') None
             [Element (''http://www.w3.org/1999/02/22-rdf-syntax-ns#'', ''Description'') None
                [Element (''http://purl.org/dc/terms/'', ''abstract'') (Some demo_abstract) []]],
           Element (''http://purl.org/dc/elements/1.1/'', ''subject'') (Some ''water'') []]]"

definition demo_dir :: "string \<Rightarrow> string" where
  "demo_dir name = ''./source/gallery/hydro/models/'' @ name"

definition conf_first :: dict where
  "conf_first = [(''title'', PStr ''Demo'')]"

definition conf_second :: dict where
  "conf_second =
     [(''title'', PStr ''Demo''), (''description'', PStr (''Line1'' @ [CR, LF] @ ''Line2''))]"

definition conf_third :: dict where
  "conf_third =
     [(''hydroshare'', PDict [(''id'', PNone)]),
      (''title'', PStr ''Demo''),
      (''description'', PStr ''No resource yet'')]"

definition conf_fourth :: dict where
  "conf_fourth =
     [(''hydroshare'', PDict [(''id'', PStr ''gone'')]),
      (''title'', PStr ''Demo''),
      (''description'', PStr ''Resource was deleted'')]"

definition conf_fifth :: dict where
  "conf_fifth =
     [(''hydroshare'', PDict [(''id'', PStr ''abc123'')]), (''thumbnail'', PStr ''thumb.png'')]"

definition demo_confs :: "(string \<times> pyval) list" where
  "demo_confs =
     [(demo_dir ''first/conf.yaml'', PDict conf_first),
      (demo_dir ''second/conf.yaml'', PDict conf_second),
      (demo_dir ''third/conf.yaml'', PDict conf_third),
      (demo_dir ''fourth/conf.yaml'', PDict conf_fourth),
      (demo_dir ''fifth/conf.yaml'', PDict conf_fifth)]"

definition demo_world :: world where
  "demo_world =
     \<lparr>load_conf = (\<lambda>p. case map_of demo_confs p of None \<Rightarrow> Inl LoadError | Some v \<Rightarrow> Inr v),
      http_get = (\<lambda>v. if v = PStr ''abc123'' then Response 200 ''<rdf:RDF/>''
                       else Response 404 []),
      fromstring = (\<lambda>b. if b = ''<rdf:RDF/>'' then Some (demo_root, demo_ns) else None),
      py_str = (\<lambda>v. if v = PNone then ''None'' else ''?''),
      abspath = (\<lambda>p. ''/work/'' @ p),
      path_exists = (\<lambda>p. p = ''/work/'' @ demo_dir ''fifth/thumb.png''),
      copyfile = (\<lambda>src dst. None)\<rparr>"


definition record_third :: dict where
  "record_third =
     [(''hydroshare'', PDict [(''id'', PNone)]),
      (''title'', PStr ''Demo''),
      (''description'', PStr ''No resource yet''),
      (''label'', PNone)]"

definition record_third_filed :: dict where
  "record_third_filed =
     [(''hydroshare'', PDict [(''id'', PNone)]),
      (''title'', PStr ''Demo''),
      (''description'', PStr ''No resource yet''),
      (''label'', PNone),
      (''thumbnail'', PStr ''missing-thumbnail.png'')]"

definition state_third :: gallery_state where
  "state_third =
     \<lparr>subgalleries = [(''./source/gallery/hydro'', [(''models'', [record_third_filed])])],
      events =
        [Print ''processing: ./source/gallery/hydro/models/third'',
         WriteYaml ''./source/gallery/hydro/models/third/.cache.yaml'' record_third,
         RenderPage ''./source/_templates/landingpage.rst'' record_third
           ''./source/gallery/hydro/models/third/index.rst'',
         Print ''WARNING: Missing thumbnail, setting to default image'']\<rparr>"


definition remote_record :: dict where
  "remote_record =
     [(''title'', PStr ''Stream gauges''),
      (''description'', PStr ''Remote abstract''),
      (''keywords'', PList [PStr ''water''])]"

definition local_record :: dict where
  "local_record = [(''title'', PStr ''Local title''), (''thumbnail'', PStr ''thumb.png'')]"

section \<open>Dictionaries: facts about merging\<close>

lemma map_of_dict_update:
  "map_of (dict_update d other) = map_of d ++ map_of (rev other)"
  unfolding dict_update_def
proof (induction other arbitrary: d)
  case Nil
  show ?case by simp
next
  case (Cons kv other)
  obtain k v where kv: "kv = (k, v)" by (cases kv)
  show ?case
    by (simp add: kv Cons.IH update_conv' fun_eq_iff map_add_def split: option.splits)
qed

lemma map_of_rev_distinct:
  assumes "distinct (map fst xs)"
  shows "map_of (rev xs) = map_of xs"
proof -
  have "distinct (map fst (rev xs))"
    using assms by (simp add: rev_map [symmetric])
  then show ?thesis
    using assms by (simp add: map_of_inject_set)
qed



section \<open>Overlay precedence of the merge\<close>

text \<open>
  Claim C4. In the merged record (lines 148--149) every key of the local configuration has
  the value the local configuration gives it, whatever the fetched metadata says, and a key
  that only the fetched metadata has keeps the fetched value. A Python dictionary holds
  each key once, which is the hypothesis on the configuration.
\<close>

theorem merge_data_local_wins:
  assumes "distinct (map fst yaml_data)"
  shows "map_of (merge_data hsdata yaml_data) k =
           (case map_of yaml_data k of
              Some v \<Rightarrow> Some v
            | None \<Rightarrow> (case hsdata of None \<Rightarrow> None | Some h \<Rightarrow> map_of h k))"
  using assms
  by (simp add: merge_data_def map_of_dict_update map_add_def map_of_rev_distinct
      split: option.splits)

text \<open>The title of the local configuration replaces the fetched title.\<close>

theorem merge_data_local_wins_witness:
  "distinct (map fst local_record)
   \<and> map_of (merge_data (Some remote_record) local_record) ''title'' = Some (PStr ''Local title'')"
proof -
  have d: "distinct (map fst local_record)"
    by (simp add: local_record_def)
  have "map_of local_record ''title'' = Some (PStr ''Local title'')"
    by (simp add: local_record_def)
  with merge_data_local_wins [OF d, of "Some remote_record" "''title''"] d
  show ?thesis by simp
qed

section \<open>Description normalization\<close>

lemma replace_char_absent: "old \<notin> set s \<Longrightarrow> replace_char old new s = s"
  by (induction s) (auto simp: replace_char_def)

lemma set_replace_char: "set (replace_char old new s) \<subseteq> (set s - {old}) \<union> set new"
  by (induction s) (auto simp: replace_char_def)

lemma clean_description_chars:
  "LF \<notin> set (clean_description s) \<and> CR \<notin> set (clean_description s)"
proof -
  have a: "set (replace_char LF [] s) \<subseteq> set s - {LF}"
    using set_replace_char [of LF "[]" s] by simp
  have b: "set (clean_description s) \<subseteq> (set (replace_char LF [] s) - {CR}) \<union> set ''<br>''"
    unfolding clean_description_def by (rule set_replace_char)
  have c: "LF \<notin> set ''<br>''" "CR \<notin> set ''<br>''"
    by (simp_all add: LF_def CR_def)
  from a b c show ?thesis by blast
qed

text \<open>
  Claim C6. Cleaning a description (lines 161--162: line feeds removed, carriage returns
  replaced by \<^verbatim>\<open><br>\<close>) a second time changes nothing, and the cleaned description holds
  neither a line feed nor a carriage return.
\<close>

theorem clean_description_idempotent:
  "clean_description (clean_description s) = clean_description s
   \<and> LF \<notin> set (clean_description s) \<and> CR \<notin> set (clean_description s)"
proof -
  have n: "LF \<notin> set (clean_description s)" "CR \<notin> set (clean_description s)"
    using clean_description_chars by simp_all
  have "clean_description (clean_description s)
        = replace_char CR ''<br>'' (clean_description s)"
    unfolding clean_description_def [of "clean_description s"]
    by (simp add: replace_char_absent n)
  also have "\<dots> = clean_description s"
    using n by (simp add: replace_char_absent)
  finally show ?thesis using n by simp
qed

text \<open>The scenario of the specification: \<^verbatim>\<open>Line1\r\nLine2\<close>.\<close>

theorem clean_description_idempotent_witness:
  "clean_description (''Line1'' @ [CR, LF] @ ''Line2'') = ''Line1<br>Line2''
   \<and> clean_description ''Line1<br>Line2'' = ''Line1<br>Line2''"
proof -
  have e: "clean_description (''Line1'' @ [CR, LF] @ ''Line2'') = ''Line1<br>Line2''"
    by (simp add: clean_description_def replace_char_def CR_def LF_def)
  from clean_description_idempotent [of "''Line1'' @ [CR, LF] @ ''Line2''"] e
  show ?thesis by simp
qed

section \<open>Base64 round trip\<close>

lemma b64_table:
  "\<forall>n \<in> set [0..<64]. b64_value (b64_char n) = Some n \<and> b64_char n \<noteq> CHR ''=''"
  by code_simp

lemma b64_value_char: "n < 64 \<Longrightarrow> b64_value (b64_char n) = Some n"
  using b64_table by simp

lemma b64_char_not_pad: "n < 64 \<Longrightarrow> b64_char n \<noteq> CHR ''=''"
  using b64_table by simp

lemma sextet_bounds:
  fixes x y z :: nat
  assumes "x < 256" "y < 256" "z < 256"
  shows "x div 4 < 64" "(x mod 4) * 16 + y div 16 < 64" "(x mod 4) * 16 < 64"
    "(y mod 16) * 4 + z div 64 < 64" "(y mod 16) * 4 < 64" "z mod 64 < 64"
  using assms by auto

lemma octet1:
  fixes x y :: nat
  assumes "y < 256"
  shows "(x div 4) * 4 + ((x mod 4) * 16 + y div 16) div 16 = x"
  using assms by auto

lemma octet2:
  fixes x y z :: nat
  assumes "y < 256" "z < 256"
  shows "(((x mod 4) * 16 + y div 16) mod 16) * 16 + ((y mod 16) * 4 + z div 64) div 4 = y"
  using assms by auto

lemma octet3:
  fixes y z :: nat
  assumes "z < 256"
  shows "(((y mod 16) * 4 + z div 64) mod 4) * 64 + z mod 64 = z"
  using assms by auto

lemma octet1_pad:
  fixes x :: nat
  shows "(x div 4) * 4 + ((x mod 4) * 16) div 16 = x"
  by auto

lemma octet2_pad:
  fixes x y :: nat
  assumes "y < 256"
  shows "(((x mod 4) * 16 + y div 16) mod 16) * 16 + ((y mod 16) * 4) div 4 = y"
  using assms by auto

text \<open>Decoding what \<^const>\<open>b64encode\<close> produced gives the bytes back; the proof follows the
  four equations of the encoder.\<close>

lemma b64decode_b64encode: "b64decode (b64encode bs) = Some bs"
proof (induction bs rule: b64encode.induct)
  case 1
  show ?case by simp
next
  case (2 a)
  define x :: nat where "x = of_char a"
  have x: "x < 256" by (simp add: x_def)
  have "b64decode (b64encode [a]) = Some [char_of (x div 4 * 4 + (x mod 4 * 16) div 16)]"
    using sextet_bounds [OF x x x]
    by (simp add: x_def [symmetric] b64_value_char)
  also have "\<dots> = Some [char_of x]"
    by (simp only: octet1_pad)
  finally show ?case by (simp add: x_def)
next
  case (3 a b)
  define x :: nat where "x = of_char a"
  define y :: nat where "y = of_char b"
  have x: "x < 256" and y: "y < 256" by (simp_all add: x_def y_def)
  have "b64decode (b64encode [a, b])
        = Some [char_of (x div 4 * 4 + (x mod 4 * 16 + y div 16) div 16),
                char_of ((x mod 4 * 16 + y div 16) mod 16 * 16 + (y mod 16 * 4) div 4)]"
    using sextet_bounds [OF x y y]
    by (simp add: x_def [symmetric] y_def [symmetric] b64_value_char b64_char_not_pad)
  also have "\<dots> = Some [char_of x, char_of y]"
    by (simp only: octet1 [OF y] octet2_pad [OF y])
  finally show ?case by (simp add: x_def y_def)
next
  case (4 a b c rest)
  define x :: nat where "x = of_char a"
  define y :: nat where "y = of_char b"
  define z :: nat where "z = of_char c"
  have x: "x < 256" and y: "y < 256" and z: "z < 256"
    by (simp_all add: x_def y_def z_def)
  have "b64decode (b64encode (a # b # c # rest))
        = Some ([char_of (x div 4 * 4 + (x mod 4 * 16 + y div 16) div 16),
                 char_of ((x mod 4 * 16 + y div 16) mod 16 * 16 + (y mod 16 * 4 + z div 64) div 4),
                 char_of ((y mod 16 * 4 + z div 64) mod 4 * 64 + z mod 64)] @ rest)"
    using sextet_bounds [OF x y z] "4.IH"
    by (simp add: x_def [symmetric] y_def [symmetric] z_def [symmetric]
        b64_value_char b64_char_not_pad)
  also have "\<dots> = Some ([char_of x, char_of y, char_of z] @ rest)"
    by (simp only: octet1 [OF y] octet2 [OF y z] octet3 [OF z])
  finally show ?case by (simp add: x_def y_def z_def)
qed

section \<open>Label derivation\<close>

text \<open>
  Where the record has no \<^verbatim>\<open>label\<close> key, the lookup \<^verbatim>\<open>data['hydroshare']['id']\<close> of line 155
  raises and the title is a string, the label is the Base64 text of the UTF-8 bytes of the
  title: a function of the title alone, from which decoding gives these bytes back.
\<close>

lemma derived_label_reversible:
  assumes "map_of data ''label'' = None"
    and "hydroshare_id data = Inl e"
    and "map_of data ''title'' = Some (PStr title)"
  shows "derive_label data =
           Inr (AList.update ''label'' (PStr (b64encode (encode_utf8 title))) data)
         \<and> map_of (AList.update ''label'' (PStr (b64encode (encode_utf8 title))) data) ''label''
             = Some (PStr (b64encode (encode_utf8 title)))
         \<and> b64decode (b64encode (encode_utf8 title)) = Some (encode_utf8 title)"
  using assms
  by (simp add: derive_label_def py_getitem_def b64_label_def b64decode_b64encode update_conv')

text \<open>The scenario of the specification: the title \<^verbatim>\<open>Demo\<close> gives the label \<^verbatim>\<open>RGVtbw==\<close>.\<close>

lemma derived_label_demo:
  "map_of conf_second ''label'' = None
   \<and> hydroshare_id conf_second = Inl (KeyError ''hydroshare'')
   \<and> map_of conf_second ''title'' = Some (PStr ''Demo'')
   \<and> derive_label conf_second = Inr (AList.update ''label'' (PStr ''RGVtbw=='') conf_second)
   \<and> b64decode ''RGVtbw=='' = Some ''Demo''"
proof -
  have l: "map_of conf_second ''label'' = None"
    by (simp add: conf_second_def)
  have h: "hydroshare_id conf_second = Inl (KeyError ''hydroshare'')"
    by (simp add: conf_second_def hydroshare_id_def py_getitem_def)
  have t: "map_of conf_second ''title'' = Some (PStr ''Demo'')"
    by (simp add: conf_second_def)
  have b: "b64encode (encode_utf8 ''Demo'') = ''RGVtbw==''"
    by (simp add: encode_utf8_def b64_char_def b64_alphabet_def)
  from derived_label_reversible [OF l h t] l h t show ?thesis
    unfolding b by (simp add: encode_utf8_def)
qed

text \<open>
  Claim C5. A merged record with no \<^verbatim>\<open>label\<close> field and no remote resource identifier gets
  a label that is a function of its title and from which the bytes of the title can be
  decoded. The configuration of the third example has no \<^verbatim>\<open>label\<close>, and its
  \<^verbatim>\<open>hydroshare.id\<close> is \<^verbatim>\<open>null\<close>: the builder reads \<^verbatim>\<open>None\<close> as identifier (line 134) and
  fetches nothing (line 137). The lookup of line 155 does not raise on it, so the label of
  the merged record is \<^verbatim>\<open>None\<close>; the Base64 text of the title \<^verbatim>\<open>Demo\<close>, which decodes to
  the title, is \<^verbatim>\<open>RGVtbw==\<close> and is never computed.
\<close>

theorem null_id_label_not_derived_from_title:
  "py_get (PDict conf_third) ''hydroshare'' (PDict []) = Inr (PDict [(''id'', PNone)])
   \<and> py_get (PDict [(''id'', PNone)]) ''id'' PNone = Inr PNone
   \<and> map_of (merge_data None conf_third) ''label'' = None
   \<and> map_of (merge_data None conf_third) ''title'' = Some (PStr ''Demo'')
   \<and> derive_label (merge_data None conf_third) = Inr record_third
   \<and> map_of record_third ''label'' = Some PNone
   \<and> b64_label (PStr ''Demo'') = Inr (PStr ''RGVtbw=='')
   \<and> b64decode ''RGVtbw=='' = Some (encode_utf8 ''Demo'')"
proof -
  have m: "merge_data None conf_third = conf_third"
    by (simp add: merge_data_def dict_update_def conf_third_def)
  have hs: "py_get (PDict conf_third) ''hydroshare'' (PDict []) = Inr (PDict [(''id'', PNone)])"
    by (simp add: py_get_def conf_third_def)
  have hsid: "py_get (PDict [(''id'', PNone)]) ''id'' PNone = Inr PNone"
    by (simp add: py_get_def)
  have keys: "map_of conf_third ''label'' = None" "map_of conf_third ''title'' = Some (PStr ''Demo'')"
    by (simp_all add: conf_third_def)
  have label: "derive_label conf_third = Inr record_third"
    by (simp add: conf_third_def record_third_def derive_label_def hydroshare_id_def
        py_getitem_def)
  have none: "map_of record_third ''label'' = Some PNone"
    by (simp add: record_third_def)
  have enc: "b64encode (encode_utf8 ''Demo'') = ''RGVtbw==''"
    by (simp add: encode_utf8_def b64_char_def b64_alphabet_def)
  have b64: "b64_label (PStr ''Demo'') = Inr (PStr ''RGVtbw=='')"
    by (simp add: b64_label_def enc)
  have dec: "b64decode ''RGVtbw=='' = Some (encode_utf8 ''Demo'')"
    using b64decode_b64encode [of "encode_utf8 ''Demo''"] by (simp only: enc)
  from hs hsid keys label none b64 dec show ?thesis
    by (simp add: m)
qed

section \<open>Static Asset Relocator\<close>

text \<open>
  Claim C9. When the record has no \<^verbatim>\<open>thumbnail\<close> key, or its thumbnail names a file that
  does not exist, \<^const>\<open>copy_static\<close> prints the warning and nothing else (no file is
  copied) and returns the record with the thumbnail \<^verbatim>\<open>missing-thumbnail.png\<close>.
\<close>

theorem copy_static_missing_thumbnail:
  assumes "map_of data ''thumbnail'' = None
           \<or> (\<exists>t. map_of data ''thumbnail'' = Some (PStr t)
                    \<and> \<not> path_exists w (abspath w (path_join subdir t)))"
  shows "copy_static w subdir data =
           Inr ([Print ''WARNING: Missing thumbnail, setting to default image''],
                AList.update ''thumbnail'' (PStr ''missing-thumbnail.png'') data)
         \<and> map_of (AList.update ''thumbnail'' (PStr ''missing-thumbnail.png'') data) ''thumbnail''
             = Some (PStr ''missing-thumbnail.png'')"
  using assms
  by (auto simp: copy_static_def default_thumbnail_def join_value_def update_conv')

text \<open>A thumbnail that is named but does not exist.\<close>

theorem copy_static_missing_thumbnail_witness:
  "map_of local_record ''thumbnail'' = Some (PStr ''thumb.png'')
   \<and> \<not> path_exists demo_world (abspath demo_world (path_join (demo_dir ''second'') ''thumb.png''))
   \<and> copy_static demo_world (demo_dir ''second'') local_record =
       Inr ([Print ''WARNING: Missing thumbnail, setting to default image''],
            [(''title'', PStr ''Local title''), (''thumbnail'', PStr ''missing-thumbnail.png'')])"
proof -
  have t: "map_of local_record ''thumbnail'' = Some (PStr ''thumb.png'')"
    by (simp add: local_record_def)
  have n: "\<not> path_exists demo_world
               (abspath demo_world (path_join (demo_dir ''second'') ''thumb.png''))"
    by (simp add: demo_world_def demo_dir_def path_join_def sep_def)
  from t n have "map_of local_record ''thumbnail'' = None
      \<or> (\<exists>t. map_of local_record ''thumbnail'' = Some (PStr t)
            \<and> \<not> path_exists demo_world (abspath demo_world (path_join (demo_dir ''second'') t)))"
    by blast
  from copy_static_missing_thumbnail [OF this] t n show ?thesis
    by (simp add: local_record_def)
qed

text \<open>
  Claim C10. Whenever \<^const>\<open>copy_static\<close> returns a record, every key other than
  \<^verbatim>\<open>thumbnail\<close> has the value it had, and the keys of the record are the keys it had
  together with \<^verbatim>\<open>thumbnail\<close>.
\<close>

theorem copy_static_frame:
  assumes "copy_static w subdir data = Inr (out, data')"
  shows "(\<forall>k. k \<noteq> ''thumbnail'' \<longrightarrow> map_of data' k = map_of data k)
         \<and> fst ` set data' = insert ''thumbnail'' (fst ` set data)"
proof -
  from assms obtain v where "data' = AList.update ''thumbnail'' v data"
    by (auto simp: copy_static_def default_thumbnail_def Let_def
        split: option.splits sum.splits if_splits)
  then show ?thesis
    by (simp add: update_conv' dom_update)
qed

text \<open>A thumbnail that exists: the file is copied and the record renamed.\<close>

theorem copy_static_frame_witness:
  "copy_static demo_world (demo_dir ''fifth'')
       [(''title'', PStr ''Stream gauges''), (''thumbnail'', PStr ''thumb.png''),
        (''label'', PStr ''abc123'')]
     = Inr ([CopyFile ''/work/./source/gallery/hydro/models/fifth/thumb.png''
               ''./source/_static/thumbnail-abc123''],
            [(''title'', PStr ''Stream gauges''), (''thumbnail'', PStr ''thumbnail-abc123''),
             (''label'', PStr ''abc123'')])
   \<and> map_of [(''title'', PStr ''Stream gauges''), (''thumbnail'', PStr ''thumbnail-abc123''),
              (''label'', PStr ''abc123'')] ''label''
       = map_of [(''title'', PStr ''Stream gauges''), (''thumbnail'', PStr ''thumb.png''),
                 (''label'', PStr ''abc123'')] ''label''"
proof -
  have c: "copy_static demo_world (demo_dir ''fifth'')
       [(''title'', PStr ''Stream gauges''), (''thumbnail'', PStr ''thumb.png''),
        (''label'', PStr ''abc123'')]
     = Inr ([CopyFile ''/work/./source/gallery/hydro/models/fifth/thumb.png''
               ''./source/_static/thumbnail-abc123''],
            [(''title'', PStr ''Stream gauges''), (''thumbnail'', PStr ''thumbnail-abc123''),
             (''label'', PStr ''abc123'')])"
    by (simp add: copy_static_def demo_world_def demo_dir_def join_value_def path_join_def
        sep_def format_value_def static_dir_def Let_def)
  from copy_static_frame [OF c] c show ?thesis by simp
qed

section \<open>Failed fetch\<close>

text \<open>
  Claim C3. When the configuration names a resource (\<^verbatim>\<open>hydroshare.id\<close> is not \<^verbatim>\<open>None\<close>) and
  the fetch fails (the request raises, the status is not 200, the body does not parse, or
  the parsed document lacks what the fetcher reads), the loop body emits its three lines
  of output and nothing else: no cache file, no page, no copy; the index of sub-galleries
  is unchanged, and the traversal goes on with the next directory.
\<close>

theorem failed_fetch_skips_example:
  assumes conf: "''conf.yaml'' \<in> set files"
    and load: "load_conf w (path_join subdir ''conf.yaml'') = Inr (PDict yd)"
    and hs: "map_of yd ''hydroshare'' = Some (PDict h)"
    and hsid: "map_of h ''id'' = Some hsid" "hsid \<noteq> PNone"
    and failed: "http_get w hsid = RequestFailed
                 \<or> (\<exists>status body. http_get w hsid = Response status body
                       \<and> (status \<noteq> 200 \<or> fromstring w (encode_utf8 body) = None
                            \<or> (\<exists>root ns. fromstring w (encode_utf8 body) = Some (root, ns)
                                   \<and> scimeta_record ns root = None)))"
  shows "process_dir w s (subdir, files) =
           Inr (s\<lparr>events := events s @
                  [Print (''processing: '' @ subdir),
                   Print (''Failed to get hydroshare data for resource id: ''
                          @ format_value w hsid),
                   Print ''something happened when collecting hs metadata'']\<rparr>)
         \<and> traverse w s ((subdir, files) # rest) =
             traverse w (s\<lparr>events := events s @
                  [Print (''processing: '' @ subdir),
                   Print (''Failed to get hydroshare data for resource id: ''
                          @ format_value w hsid),
                   Print ''something happened when collecting hs metadata'']\<rparr>) rest"
proof -
  have "fetch_scimeta w hsid = None"
    using failed by (auto simp: fetch_scimeta_def)
  then have "get_metadata_from_hs w hsid =
      ([Print (''Failed to get hydroshare data for resource id: '' @ format_value w hsid)], None)"
    by (simp add: get_metadata_from_hs_def)
  then have "build_example_page w subdir (path_join subdir ''conf.yaml'') =
      Inr ([Print (''Failed to get hydroshare data for resource id: '' @ format_value w hsid),
            Print ''something happened when collecting hs metadata''], None)"
    using load hs hsid by (simp add: build_example_page_def py_get_def)
  then have "process_dir w s (subdir, files) =
           Inr (s\<lparr>events := events s @
                  [Print (''processing: '' @ subdir),
                   Print (''Failed to get hydroshare data for resource id: ''
                          @ format_value w hsid),
                   Print ''something happened when collecting hs metadata'']\<rparr>)"
    using conf by (simp add: process_dir_def)
  then show ?thesis by simp
qed

text \<open>The fourth example (HTTP 404) is skipped and the second one, which follows it, is
  built and filed.\<close>

theorem failed_fetch_skips_example_witness:
  "load_conf demo_world (path_join (demo_dir ''fourth'') ''conf.yaml'') = Inr (PDict conf_fourth)
   \<and> map_of conf_fourth ''hydroshare'' = Some (PDict [(''id'', PStr ''gone'')])
   \<and> http_get demo_world (PStr ''gone'') = Response 404 []
   \<and> traverse demo_world initial_state
        [(demo_dir ''fourth'', [''conf.yaml'']), (demo_dir ''second'', [''conf.yaml''])]
      = traverse demo_world
         \<lparr>subgalleries = [],
          events = [Print ''processing: ./source/gallery/hydro/models/fourth'',
                    Print ''Failed to get hydroshare data for resource id: gone'',
                    Print ''something happened when collecting hs metadata'']\<rparr>
         [(demo_dir ''second'', [''conf.yaml''])]"
proof -
  have conf: "''conf.yaml'' \<in> set [''conf.yaml'']" by simp
  have load: "load_conf demo_world (path_join (demo_dir ''fourth'') ''conf.yaml'')
              = Inr (PDict conf_fourth)"
    by (simp add: demo_world_def demo_confs_def demo_dir_def path_join_def sep_def)
  have hs: "map_of conf_fourth ''hydroshare'' = Some (PDict [(''id'', PStr ''gone'')])"
    by (simp add: conf_fourth_def)
  have hsid: "map_of [(''id'', PStr ''gone'')] ''id'' = Some (PStr ''gone'')" "PStr ''gone'' \<noteq> PNone"
    by simp_all
  have get: "http_get demo_world (PStr ''gone'') = Response 404 []"
    by (simp add: demo_world_def)
  then have failed: "http_get demo_world (PStr ''gone'') = RequestFailed
      \<or> (\<exists>status body. http_get demo_world (PStr ''gone'') = Response status body
            \<and> (status \<noteq> 200 \<or> fromstring demo_world (encode_utf8 body) = None
                 \<or> (\<exists>root ns. fromstring demo_world (encode_utf8 body) = Some (root, ns)
                        \<and> scimeta_record ns root = None)))"
    by simp
  from failed_fetch_skips_example [OF conf load hs hsid failed, of initial_state
      "[(demo_dir ''second'', [''conf.yaml''])]"]
  have "traverse demo_world initial_state
        [(demo_dir ''fourth'', [''conf.yaml'']), (demo_dir ''second'', [''conf.yaml''])]
      = traverse demo_world
         \<lparr>subgalleries = [],
          events = [Print ''processing: ./source/gallery/hydro/models/fourth'',
                    Print ''Failed to get hydroshare data for resource id: gone'',
                    Print ''something happened when collecting hs metadata'']\<rparr>
         [(demo_dir ''second'', [''conf.yaml''])]"
    by (simp add: initial_state_def demo_dir_def format_value_def)
  with load hs get show ?thesis by simp
qed

section \<open>Missing required fields\<close>






section \<open>Fetched description\<close>

lemma scimeta_record_description:
  assumes "scimeta_record ns root = Some data"
  shows "\<exists>abstract t. find_desc ns root ''dcterms'' ''abstract'' = Some (Some abstract)
            \<and> elem_text abstract = Some t
            \<and> map_of data ''description'' = Some (PStr (encode_ascii_ignore t))"
  using assms
  by (auto simp: scimeta_record_def bind_eq_Some_conv)

text \<open>
  Claim C2, as the script has it. Whenever the fetcher returns a record, the response had
  status 200 and parsed, the document has an abstract with a text, and the description of
  the record is that text without its non-ASCII characters (line 71,
  \<^verbatim>\<open>encode("ascii", "ignore")\<close>); ASCII control characters stay.
\<close>

theorem fetched_description_ascii_only:
  assumes "snd (get_metadata_from_hs w hsguid) = Some data"
  shows "\<exists>body root ns abstract t.
           http_get w hsguid = Response 200 body
         \<and> fromstring w (encode_utf8 body) = Some (root, ns)
         \<and> find_desc ns root ''dcterms'' ''abstract'' = Some (Some abstract)
         \<and> elem_text abstract = Some t
         \<and> map_of data ''description'' = Some (PStr (encode_ascii_ignore t))"
proof -
  from assms have f: "fetch_scimeta w hsguid = Some data"
    by (auto simp: get_metadata_from_hs_def split: option.splits)
  then obtain body root ns where r: "http_get w hsguid = Response 200 body"
      "fromstring w (encode_utf8 body) = Some (root, ns)" "scimeta_record ns root = Some data"
    by (auto simp: fetch_scimeta_def split: http_result.splits if_splits option.splits)
  from scimeta_record_description [OF r(3)] r(1,2) show ?thesis by blast
qed

lemma demo_fetch:
  "snd (get_metadata_from_hs demo_world (PStr ''abc123'')) =
     Some [(''authors'',
            PList [PDict [(''name'', PStr ''Ada''),
                          (''url'', PStr ''https://hydroshare.org/user/7/'')]]),
           (''title'', PStr ''Stream gauges''),
           (''description'', PStr (''Flow'' @ [LF] @ ''data'' @ [CHR 0x09])),
           (''keywords'', PList [PStr ''water''])]"
  by code_simp

text \<open>The served resource of the concrete gallery.\<close>

theorem fetched_description_ascii_only_witness:
  "snd (get_metadata_from_hs demo_world (PStr ''abc123'')) =
     Some [(''authors'',
            PList [PDict [(''name'', PStr ''Ada''),
                          (''url'', PStr ''https://hydroshare.org/user/7/'')]]),
           (''title'', PStr ''Stream gauges''),
           (''description'', PStr (''Flow'' @ [LF] @ ''data'' @ [CHR 0x09])),
           (''keywords'', PList [PStr ''water''])]
   \<and> (\<exists>body root ns abstract t.
           http_get demo_world (PStr ''abc123'') = Response 200 body
         \<and> fromstring demo_world (encode_utf8 body) = Some (root, ns)
         \<and> find_desc ns root ''dcterms'' ''abstract'' = Some (Some abstract)
         \<and> elem_text abstract = Some t
         \<and> PStr (''Flow'' @ [LF] @ ''data'' @ [CHR 0x09]) = PStr (encode_ascii_ignore t))"
  using fetched_description_ascii_only [OF demo_fetch] demo_fetch by simp

text \<open>
  Claim C2, as the specification states it, fails: the abstract of the served resource
  holds a line feed and a tabulator, which are control characters and stay in the
  description, and a non-ASCII character, which is no control character and is dropped.
\<close>

theorem fetched_description_keeps_control_chars:
  "fetched_description demo_world (PStr ''abc123'')
     = Some (PStr (''Flow'' @ [LF] @ ''data'' @ [CHR 0x09]))
   \<and> spec_strip_control_chars demo_abstract = ''Flowdata'' @ [CHR 0xC3, CHR 0xA9]
   \<and> fetched_description demo_world (PStr ''abc123'')
     \<noteq> Some (PStr (spec_strip_control_chars demo_abstract))"
proof -
  have a: "fetched_description demo_world (PStr ''abc123'')
     = Some (PStr (''Flow'' @ [LF] @ ''data'' @ [CHR 0x09]))"
    by (simp add: fetched_description_def demo_fetch)
  have b: "spec_strip_control_chars demo_abstract = ''Flowdata'' @ [CHR 0xC3, CHR 0xA9]"
    by (simp add: spec_strip_control_chars_def is_control_char_def demo_abstract_def LF_def)
  show ?thesis
    unfolding a b by (simp add: LF_def)
qed

section \<open>Records filed with a null label\<close>

text \<open>
  Claim C7. Every record filed in the index has a \<^verbatim>\<open>label\<close>, a \<^verbatim>\<open>description\<close> and a
  \<^verbatim>\<open>thumbnail\<close> that are not null. The third example of the concrete gallery, whose
  \<^verbatim>\<open>hydroshare.id\<close> is \<^verbatim>\<open>null\<close>, is built and filed with the label \<^verbatim>\<open>None\<close>.
\<close>

theorem null_id_record_filed_with_null_label:
  "traverse demo_world initial_state [(demo_dir ''third'', [''conf.yaml''])] = Inr state_third
   \<and> entries (subgalleries state_third) ''./source/gallery/hydro'' ''models''
       = [record_third_filed]
   \<and> map_of record_third_filed ''label'' = Some PNone"
proof -
  have run: "traverse demo_world initial_state [(demo_dir ''third'', [''conf.yaml''])]
             = Inr state_third"
    by code_simp
  have filed: "entries (subgalleries state_third) ''./source/gallery/hydro'' ''models''
               = [record_third_filed]"
    by (simp add: state_third_def entries_def)
  have label: "map_of record_third_filed ''label'' = Some PNone"
    by (simp add: record_third_filed_def)
  from run filed label show ?thesis by simp
qed

section \<open>Aggregation\<close>










end
